theory Spec2Isabelle
  imports Complex_Main
begin

section \<open>Data model (services/weather/weatherTypes.ts)\<close>

text \<open>
  The TypeScript string-literal unions become datatypes and the interfaces become
  records.  A JavaScript \<^verbatim>\<open>number\<close> holding a temperature is idealised as an exact
  rational; a number holding epoch milliseconds is an \<^typ>\<open>int\<close>; a number that may be
  \<^verbatim>\<open>NaN\<close> is an \<^typ>\<open>int option\<close> with \<^term>\<open>None\<close> for \<^verbatim>\<open>NaN\<close>.
\<close>

datatype ConnectionStatus = online | offline | stale

datatype TemperatureUnit = celsius | fahrenheit

record TemperatureData =
  temperature :: rat
  unit :: string
  location :: string
  lastUpdate :: string
  connectionStatus :: ConnectionStatus

text \<open>\<^verbatim>\<open>WeatherApiResponse\<close>, with the nested objects \<^verbatim>\<open>location\<close> and
  \<^verbatim>\<open>current\<close> flattened.\<close>

record WeatherApiResponse =
  name :: string
  region :: string
  country :: string
  temp_c :: rat
  temp_f :: rat
  condition_text :: string

section \<open>The in-memory cache (instances/cache/index.ts)\<close>

record 'v CacheEntry =
  data :: 'v
  expiresAt :: int

type_synonym 'v MemoryCache = "string \<rightharpoonup> 'v CacheEntry"

text \<open>Every method that reads \<^verbatim>\<open>Date.now()\<close> takes the clock reading as its first
  argument; the mutated \<^verbatim>\<open>Map\<close> is returned.\<close>

definition MemoryCache_set ::
    "int \<Rightarrow> string \<Rightarrow> 'v \<Rightarrow> int \<Rightarrow> 'v MemoryCache \<Rightarrow> 'v MemoryCache" where
  "MemoryCache_set now key d ttl c =
     (let expires = now + ttl * 1000
      in c(key \<mapsto> \<lparr>data = d, expiresAt = expires\<rparr>))"

definition MemoryCache_get ::
    "int \<Rightarrow> string \<Rightarrow> 'v MemoryCache \<Rightarrow> 'v option \<times> 'v MemoryCache" where
  "MemoryCache_get now key c =
     (case c key of
        None \<Rightarrow> (None, c)
      | Some entry \<Rightarrow>
          if now > expiresAt entry then (None, c(key := None))
          else (Some (data entry), c))"

definition MemoryCache_del :: "string \<Rightarrow> 'v MemoryCache \<Rightarrow> 'v MemoryCache" where
  "MemoryCache_del key c = c(key := None)"

definition MemoryCache_clear :: "'v MemoryCache \<Rightarrow> 'v MemoryCache" where
  "MemoryCache_clear c = Map.empty"

text \<open>One run of the callback that \<^verbatim>\<open>startCleanup\<close> schedules.\<close>

definition cleanup :: "int \<Rightarrow> 'v MemoryCache \<Rightarrow> 'v MemoryCache" where
  "cleanup now c =
     (\<lambda>key. case c key of
        None \<Rightarrow> None
      | Some entry \<Rightarrow> if now > expiresAt entry then None else Some entry)"

section \<open>Runtime, errors and the state of the service\<close>

text \<open>
  What the service reads from outside its own code: \<^verbatim>\<open>config.cache.ttl\<close> (seconds),
  the runtime's date parser behind \<^verbatim>\<open>new Date(s).getTime()\<close> (\<^term>\<open>None\<close> is
  \<^verbatim>\<open>NaN\<close>, the time value of an Invalid Date), and the offset of local time from UTC in
  milliseconds, which \<^verbatim>\<open>getHours\<close> and \<^verbatim>\<open>getMinutes\<close> apply.
\<close>

record env =
  cache_ttl :: int
  dateParse :: "string \<Rightarrow> int option"
  tzOffset :: int

text \<open>The single \<^verbatim>\<open>weatherCache\<close> instance holds temperature records under
  \<^verbatim>\<open>weather:\<close> keys and refresh timestamps under \<^verbatim>\<open>refresh:\<close> keys.\<close>

datatype cached = TemperatureValue TemperatureData | NumberValue int

record world =
  clock :: int
  weatherCache :: "cached MemoryCache"

text \<open>
  Thrown values: \<^verbatim>\<open>new Error(message)\<close> and the object literal
  \<^verbatim>\<open>{code, message}\<close>.  \<open>Mistyped\<close> is not an exception of the source: it marks a
  run in which \<^verbatim>\<open>get<TemperatureData>\<close> handed back a non-zero number, which the
  TypeScript types rule out and a \<^typ>\<open>TemperatureData\<close> cannot represent.
\<close>

datatype error = Error string | ApiError string string | Mistyped

definition InvalidInput :: error where
  "InvalidInput = Error ''Location must be between 1 and 50 characters''"

definition ImplausibleReading :: error where
  "ImplausibleReading = Error ''Temperature value outside plausible range''"

definition ProviderUnavailable :: "string \<Rightarrow> error" where
  "ProviderUnavailable message = ApiError ''WEATHER_API_ERROR'' message"

section \<open>Utilities (services/weather/weatherService.ts)\<close>

definition celsiusToFahrenheit :: "rat \<Rightarrow> rat" where
  "celsiusToFahrenheit c = (c * 9) / 5 + 32"

text \<open>\<^verbatim>\<open>parseFloat(x.toFixed(digits))\<close>: the sign is split off and the magnitude is
  rounded to the nearest multiple of \<open>10\<^sup>-\<^sup>d\<close>, the larger one on a tie.\<close>

definition toFixed :: "nat \<Rightarrow> rat \<Rightarrow> rat" where
  "toFixed digits x =
     (if x < 0 then - (of_int \<lfloor>- x * 10 ^ digits + 1 / 2\<rfloor> / 10 ^ digits)
      else of_int \<lfloor>x * 10 ^ digits + 1 / 2\<rfloor> / 10 ^ digits)"

definition digitChar :: "nat \<Rightarrow> char" where
  "digitChar d = ''0123456789'' ! d"

fun natToString :: "nat \<Rightarrow> string" where
  "natToString n =
     (if n < 10 then [digitChar n] else natToString (n div 10) @ [digitChar (n mod 10)])"

declare natToString.simps [simp del]

definition padStart :: "nat \<Rightarrow> char \<Rightarrow> string \<Rightarrow> string" where
  "padStart targetLength pad s = replicate (targetLength - length s) pad @ s"

definition getHours :: "env \<Rightarrow> int \<Rightarrow> nat" where
  "getHours e date = nat ((date + tzOffset e) div 3600000 mod 24)"

definition getMinutes :: "env \<Rightarrow> int \<Rightarrow> nat" where
  "getMinutes e date = nat ((date + tzOffset e) div 60000 mod 60)"

definition formatTimestamp :: "env \<Rightarrow> int \<Rightarrow> string" where
  "formatTimestamp e date =
     (let hours = padStart 2 CHR ''0'' (natToString (getHours e date));
          minutes = padStart 2 CHR ''0'' (natToString (getMinutes e date))
      in ''Updated at '' @ hours @ '':'' @ minutes)"

fun unitName :: "TemperatureUnit \<Rightarrow> string" where
  "unitName celsius = ''celsius''"
| "unitName fahrenheit = ''fahrenheit''"

text \<open>The degree sign is the single code unit U+00B0.\<close>

definition unitSymbol :: "TemperatureUnit \<Rightarrow> string" where
  "unitSymbol u = (if u = fahrenheit then [CHR 0xB0, CHR ''F''] else [CHR 0xB0, CHR ''C''])"

definition cacheKey :: "string \<Rightarrow> TemperatureUnit \<Rightarrow> string" where
  "cacheKey loc u = ''weather:'' @ loc @ '':'' @ unitName u"

definition refreshKey :: "string \<Rightarrow> string" where
  "refreshKey loc = ''refresh:'' @ loc"

section \<open>The provider call\<close>

text \<open>
  What the two awaits of \<^verbatim>\<open>fetchWeatherData\<close> can produce: a rejection carrying
  \<^verbatim>\<open>error.message\<close> (the abort after 5 s, a transport failure, a body that is not
  JSON), or a response with its \<^verbatim>\<open>ok\<close> flag, status and parsed body.  While the caller
  is suspended other requests run, so the provider also hands back the state of the
  service as it is when the caller resumes.
\<close>

datatype http_outcome = Rejected string | Responded bool nat WeatherApiResponse

type_synonym provider = "string \<Rightarrow> world \<Rightarrow> http_outcome \<times> world"

definition fetchWeatherData ::
    "provider \<Rightarrow> string \<Rightarrow> world \<Rightarrow> (error + WeatherApiResponse) \<times> world" where
  "fetchWeatherData http loc w =
     (case http loc w of
        (Rejected message, w') \<Rightarrow>
          (Inl (ApiError ''WEATHER_API_ERROR''
                  (if message = [] then ''Failed to fetch weather data'' else message)), w')
      | (Responded ok status body, w') \<Rightarrow>
          if \<not> ok then
            (Inl (ApiError ''WEATHER_API_ERROR''
                    (''Weather API returned status '' @ natToString status)), w')
          else (Inr body, w'))"

section \<open>getCurrentTemperature\<close>

text \<open>The truthiness test \<^verbatim>\<open>if (cachedData)\<close> on what \<^verbatim>\<open>get<TemperatureData>\<close>
  returned: \<^verbatim>\<open>null\<close> and the number 0 are falsy, an object is truthy.\<close>

datatype 'a truthiness = Falsy | Truthy 'a | WrongType

fun asTemperatureData :: "cached option \<Rightarrow> TemperatureData truthiness" where
  "asTemperatureData None = Falsy"
| "asTemperatureData (Some (TemperatureValue r)) = Truthy r"
| "asTemperatureData (Some (NumberValue n)) = (if n = 0 then Falsy else WrongType)"

text \<open>\<^verbatim>\<open>Date.now() - new Date(lastUpdate).getTime()\<close>, and the comparison
  \<^verbatim>\<open>cacheAge > 3600000\<close>, which is false on \<^verbatim>\<open>NaN\<close>.\<close>

definition cacheAge :: "env \<Rightarrow> int \<Rightarrow> TemperatureData \<Rightarrow> int option" where
  "cacheAge e now r =
     (case dateParse e (lastUpdate r) of None \<Rightarrow> None | Some t \<Rightarrow> Some (now - t))"

definition isStale :: "env \<Rightarrow> int \<Rightarrow> TemperatureData \<Rightarrow> bool" where
  "isStale e now r = (case cacheAge e now r of None \<Rightarrow> False | Some age \<Rightarrow> age > 3600000)"

text \<open>The function up to its \<^verbatim>\<open>try\<close>: validation and the first cache lookup.
  \<open>Done\<close> is a return or a throw, \<open>Await\<close> means the provider is called next.\<close>

datatype 'a phase = Done 'a | Await

definition cacheLookup ::
    "env \<Rightarrow> string \<Rightarrow> TemperatureUnit \<Rightarrow> world \<Rightarrow> (error + TemperatureData) phase \<times> world" where
  "cacheLookup e loc u w =
     (if loc = [] \<or> length loc > 50 then
        (Done (Inl (Error ''Location must be between 1 and 50 characters'')), w)
      else
        case MemoryCache_get (clock w) (cacheKey loc u) (weatherCache w) of
          (cachedData, c') \<Rightarrow>
            (case asTemperatureData cachedData of
               Truthy r \<Rightarrow>
                 (Done (Inr (r\<lparr>connectionStatus :=
                                 if isStale e (clock w) r then stale else online\<rparr>)),
                  w\<lparr>weatherCache := c'\<rparr>)
             | WrongType \<Rightarrow> (Done (Inl Mistyped), w\<lparr>weatherCache := c'\<rparr>)
             | Falsy \<Rightarrow> (Await, w\<lparr>weatherCache := c'\<rparr>)))"

text \<open>The \<^verbatim>\<open>try\<close> block from the point where \<^verbatim>\<open>fetchWeatherData\<close> has settled.\<close>

definition tryBlock ::
    "env \<Rightarrow> string \<Rightarrow> TemperatureUnit \<Rightarrow> error + WeatherApiResponse \<Rightarrow> world
       \<Rightarrow> (error + TemperatureData) \<times> world" where
  "tryBlock e loc u fetched w =
     (case fetched of
        Inl err \<Rightarrow> (Inl err, w)
      | Inr apiResponse \<Rightarrow>
          let temperatureCelsius = temp_c apiResponse in
          if temperatureCelsius < - 90 \<or> temperatureCelsius > 60 then
            (Inl (Error ''Temperature value outside plausible range''), w)
          else
            let temp = (if u = fahrenheit then celsiusToFahrenheit temperatureCelsius
                        else temperatureCelsius);
                formattedTemperature = toFixed 1 temp;
                temperatureData =
                  \<lparr>temperature = formattedTemperature,
                   unit = unitSymbol u,
                   location = name apiResponse,
                   lastUpdate = formatTimestamp e (clock w),
                   connectionStatus = online\<rparr>
            in (Inr temperatureData,
                w\<lparr>weatherCache :=
                    MemoryCache_set (clock w) (cacheKey loc u)
                      (TemperatureValue temperatureData) (cache_ttl e) (weatherCache w)\<rparr>))"

text \<open>The \<^verbatim>\<open>catch\<close> block; the caught value is not looked at.\<close>

definition catchBlock ::
    "string \<Rightarrow> TemperatureUnit \<Rightarrow> world \<Rightarrow> (error + TemperatureData) \<times> world" where
  "catchBlock loc u w =
     (case MemoryCache_get (clock w) (cacheKey loc u) (weatherCache w) of
        (offlineData, c') \<Rightarrow>
          (case asTemperatureData offlineData of
             Truthy r \<Rightarrow> (Inr (r\<lparr>connectionStatus := offline\<rparr>), w\<lparr>weatherCache := c'\<rparr>)
           | WrongType \<Rightarrow> (Inl Mistyped, w\<lparr>weatherCache := c'\<rparr>)
           | Falsy \<Rightarrow>
               (Inl (ApiError ''WEATHER_API_ERROR''
                       ''Unable to retrieve weather data and no cached data available''),
                w\<lparr>weatherCache := c'\<rparr>)))"

definition getCurrentTemperature ::
    "env \<Rightarrow> provider \<Rightarrow> string \<Rightarrow> TemperatureUnit \<Rightarrow> world
       \<Rightarrow> (error + TemperatureData) \<times> world" where
  "getCurrentTemperature e http loc u w =
     (case cacheLookup e loc u w of
        (Done result, w1) \<Rightarrow> (result, w1)
      | (Await, w1) \<Rightarrow>
          (case fetchWeatherData http loc w1 of
             (fetched, w2) \<Rightarrow>
               (case tryBlock e loc u fetched w2 of
                  (Inr temperatureData, w3) \<Rightarrow> (Inr temperatureData, w3)
                | (Inl err, w3) \<Rightarrow> catchBlock loc u w3)))"

section \<open>refreshTemperature and checkRefreshEligibility\<close>

definition refreshTemperature ::
    "env \<Rightarrow> provider \<Rightarrow> string \<Rightarrow> TemperatureUnit \<Rightarrow> world
       \<Rightarrow> (error + TemperatureData) \<times> world" where
  "refreshTemperature e http loc u w =
     (let c1 = MemoryCache_del (cacheKey loc u) (weatherCache w);
          c2 = MemoryCache_set (clock w) (refreshKey loc) (NumberValue (clock w)) 30 c1
      in getCurrentTemperature e http loc u (w\<lparr>weatherCache := c2\<rparr>))"

text \<open>
  \<^verbatim>\<open>!lastRefresh\<close> holds for \<^verbatim>\<open>null\<close> and for the number 0.  For an object,
  \<^verbatim>\<open>Date.now() - lastRefresh\<close> is \<^verbatim>\<open>NaN\<close> and the comparison is false.
\<close>

definition checkRefreshEligibility :: "string \<Rightarrow> world \<Rightarrow> bool \<times> world" where
  "checkRefreshEligibility loc w =
     (case MemoryCache_get (clock w) (refreshKey loc) (weatherCache w) of
        (lastRefresh, c') \<Rightarrow>
          (case lastRefresh of
             None \<Rightarrow> (True, w\<lparr>weatherCache := c'\<rparr>)
           | Some (NumberValue t) \<Rightarrow>
               if t = 0 then (True, w\<lparr>weatherCache := c'\<rparr>)
               else (clock w - t \<ge> 30000, w\<lparr>weatherCache := c'\<rparr>)
           | Some (TemperatureValue r) \<Rightarrow> (False, w\<lparr>weatherCache := c'\<rparr>)))"

section \<open>Example runtime and inputs\<close>

text \<open>
  A runtime with the default TTL of 900 s, local time equal to UTC, and a date parser
  that yields \<^verbatim>\<open>NaN\<close>; a provider response for Lisbon carrying a given Celsius
  reading; a provider that answers with it and leaves the service untouched; and a
  service whose cache is empty.
\<close>

definition defaultEnv :: env where
  "defaultEnv = \<lparr>cache_ttl = 900, dateParse = (\<lambda>s. None), tzOffset = 0\<rparr>"

definition reading :: "rat \<Rightarrow> WeatherApiResponse" where
  "reading c =
     \<lparr>name = ''Lisbon'', region = ''Lisboa'', country = ''Portugal'',
      temp_c = c, temp_f = c * 9 / 5 + 32, condition_text = ''Sunny''\<rparr>"

definition respond :: "rat \<Rightarrow> provider" where
  "respond c = (\<lambda>loc w. (Responded True 200 (reading c), w))"

definition emptyWorld :: "int \<Rightarrow> world" where
  "emptyWorld t = \<lparr>clock = t, weatherCache = Map.empty\<rparr>"

text \<open>A record as a fetch at 00:00 UTC stores it, and a service holding it
  until 900000 ms.\<close>

definition lisbonRecord :: TemperatureData where
  "lisbonRecord =
     \<lparr>temperature = 20, unit = unitSymbol celsius, location = ''Lisbon'',
      lastUpdate = ''Updated at 00:00'', connectionStatus = online\<rparr>"

definition lisbonCached :: "int \<Rightarrow> world" where
  "lisbonCached t =
     \<lparr>clock = t,
      weatherCache = [cacheKey ''Lisbon'' celsius \<mapsto>
        \<lparr>data = TemperatureValue lisbonRecord, expiresAt = 900000\<rparr>]\<rparr>"

text \<open>A provider whose call times out while another request stores the Lisbon record,
  and one that times out with nothing else happening.\<close>

definition timeoutDuringStore :: provider where
  "timeoutDuringStore =
     (\<lambda>loc w. (Rejected ''This operation was aborted'',
                w\<lparr>weatherCache := weatherCache (lisbonCached (clock w))\<rparr>))"

definition timeoutOnly :: provider where
  "timeoutOnly = (\<lambda>loc w. (Rejected ''This operation was aborted'', w))"

section \<open>Reachable states\<close>

text \<open>
  The states the service can be in.  Between two awaits a function body runs without
  interruption, so the steps are: the clock moves; the cleanup timer fires; a call of
  \<^verbatim>\<open>getCurrentTemperature\<close> runs up to its await, or resumes after it with whatever the
  provider call produced and runs the rest of the \<^verbatim>\<open>try\<close> block and, on a throw, the
  \<^verbatim>\<open>catch\<close> block; \<^verbatim>\<open>refreshTemperature\<close> deletes and writes its guard; and
  \<^verbatim>\<open>checkRefreshEligibility\<close> reads the guard.
\<close>

inductive reachable :: "env \<Rightarrow> world \<Rightarrow> bool" for e :: env where
  start: "reachable e (emptyWorld t)"
| tick: "reachable e w \<Longrightarrow> reachable e (w\<lparr>clock := t\<rparr>)"
| sweep: "reachable e w \<Longrightarrow> reachable e (w\<lparr>weatherCache := cleanup (clock w) (weatherCache w)\<rparr>)"
| lookup: "reachable e w \<Longrightarrow> reachable e (snd (cacheLookup e loc u w))"
| settle: "reachable e w \<Longrightarrow> reachable e (snd (tryBlock e loc u fetched w))"
| fallback: "reachable e w \<Longrightarrow> reachable e (snd (catchBlock loc u w))"
| invalidate:
    "reachable e w \<Longrightarrow>
       reachable e (w\<lparr>weatherCache := MemoryCache_del (cacheKey loc u) (weatherCache w)\<rparr>)"
| guard:
    "reachable e w \<Longrightarrow>
       reachable e (w\<lparr>weatherCache :=
          MemoryCache_set (clock w) (refreshKey loc) (NumberValue (clock w)) 30 (weatherCache w)\<rparr>)"
| check: "reachable e w \<Longrightarrow> reachable e (snd (checkRefreshEligibility loc w))"

definition allOnline :: "cached MemoryCache \<Rightarrow> bool" where
  "allOnline c =
     (\<forall>k entry r. c k = Some entry \<and> data entry = TemperatureValue r
                    \<longrightarrow> connectionStatus r = online)"

section \<open>Auxiliary facts\<close>

lemma floor_rat_numeral [simp]:
  "\<lfloor>numeral a / numeral b :: rat\<rfloor> = numeral a div numeral b"
  by (metis floor_divide_of_int_eq of_int_numeral)

lemma floor_rat_neg_numeral [simp]:
  "\<lfloor>- (numeral a / numeral b) :: rat\<rfloor> = - numeral a div numeral b"
  by (metis divide_minus_left floor_divide_of_int_eq of_int_neg_numeral of_int_numeral)

lemma MemoryCache_get_hit_unchanged:
  "fst (MemoryCache_get now key c) = Some v \<Longrightarrow> snd (MemoryCache_get now key c) = c"
  by (auto simp: MemoryCache_get_def split: option.splits if_splits)

lemma MemoryCache_get_entries:
  "snd (MemoryCache_get now key c) k = None \<or> snd (MemoryCache_get now key c) k = c k"
  by (auto simp: MemoryCache_get_def split: option.splits if_splits)

lemma MemoryCache_get_idem:
  "MemoryCache_get now key (snd (MemoryCache_get now key c)) =
     (fst (MemoryCache_get now key c), snd (MemoryCache_get now key c))"
  by (auto simp: MemoryCache_get_def split: option.splits if_splits)

lemma cacheLookup_hit:
  assumes "loc \<noteq> []" "length loc \<le> 50"
    and "fst (MemoryCache_get (clock w) (cacheKey loc u) (weatherCache w)) = Some (TemperatureValue r)"
  shows "cacheLookup e loc u w =
           (Done (Inr (r\<lparr>connectionStatus := if isStale e (clock w) r then stale else online\<rparr>)), w)"
proof -
  have "snd (MemoryCache_get (clock w) (cacheKey loc u) (weatherCache w)) = weatherCache w"
    using assms(3) by (rule MemoryCache_get_hit_unchanged)
  with assms show ?thesis
    by (simp add: cacheLookup_def case_prod_beta)
qed

lemma cacheLookup_miss:
  assumes "loc \<noteq> []" "length loc \<le> 50"
    and "asTemperatureData (fst (MemoryCache_get (clock w) (cacheKey loc u) (weatherCache w))) = Falsy"
  shows "cacheLookup e loc u w =
           (Await, w\<lparr>weatherCache := snd (MemoryCache_get (clock w) (cacheKey loc u) (weatherCache w))\<rparr>)"
  using assms by (simp add: cacheLookup_def case_prod_beta)

lemma catchBlock_hit:
  assumes "fst (MemoryCache_get (clock w) (cacheKey loc u) (weatherCache w)) = Some (TemperatureValue r)"
  shows "catchBlock loc u w = (Inr (r\<lparr>connectionStatus := offline\<rparr>), w)"
proof -
  have "snd (MemoryCache_get (clock w) (cacheKey loc u) (weatherCache w)) = weatherCache w"
    using assms by (rule MemoryCache_get_hit_unchanged)
  with assms show ?thesis
    by (simp add: catchBlock_def case_prod_beta)
qed

lemma catchBlock_absent:
  assumes "fst (MemoryCache_get (clock w) (cacheKey loc u) (weatherCache w)) = None"
  shows "fst (catchBlock loc u w) =
           Inl (ProviderUnavailable ''Unable to retrieve weather data and no cached data available'')"
  using assms by (simp add: catchBlock_def ProviderUnavailable_def case_prod_beta)

lemma catchBlock_world:
  "snd (catchBlock loc u w) =
     w\<lparr>weatherCache := snd (MemoryCache_get (clock w) (cacheKey loc u) (weatherCache w))\<rparr>"
  by (simp add: catchBlock_def case_prod_beta split: truthiness.split)

lemma fetchWeatherData_fails:
  assumes "http loc w = (out, w2)" and "out = Rejected msg \<or> out = Responded False status body"
  shows "\<exists>m. fetchWeatherData http loc w = (Inl (ProviderUnavailable m), w2)"
  using assms by (auto simp: fetchWeatherData_def ProviderUnavailable_def)

lemma fetchWeatherData_ok:
  assumes "http loc w = (Responded True status body, w2)"
  shows "fetchWeatherData http loc w = (Inr body, w2)"
  using assms by (simp add: fetchWeatherData_def)

lemma tryBlock_error: "tryBlock e loc u (Inl err) w = (Inl err, w)"
  by (simp add: tryBlock_def)

lemma tryBlock_implausible:
  "temp_c api < - 90 \<or> temp_c api > 60 \<Longrightarrow> tryBlock e loc u (Inr api) w = (Inl ImplausibleReading, w)"
  by (simp add: tryBlock_def ImplausibleReading_def)

lemma getCurrentTemperature_miss:
  assumes "loc \<noteq> []" "length loc \<le> 50"
    and "asTemperatureData (fst (MemoryCache_get (clock w) (cacheKey loc u) (weatherCache w))) = Falsy"
    and "fetchWeatherData http loc
           (w\<lparr>weatherCache := snd (MemoryCache_get (clock w) (cacheKey loc u) (weatherCache w))\<rparr>)
         = (fetched, w2)"
  shows "getCurrentTemperature e http loc u w =
           (case tryBlock e loc u fetched w2 of
              (Inr temperatureData, w3) \<Rightarrow> (Inr temperatureData, w3)
            | (Inl err, w3) \<Rightarrow> catchBlock loc u w3)"
  using assms(4) by (simp add: getCurrentTemperature_def cacheLookup_miss[OF assms(1-3)])

section \<open>Properties of the cache\<close>

text \<open>
  Claim C7.  \<^verbatim>\<open>get(key)\<close> returns the stored value exactly when an entry is present and
  \<^verbatim>\<open>now <= expiresAt\<close>; otherwise it reports absent and the entry for \<^verbatim>\<open>key\<close> is gone
  afterwards; no other key is affected, and a successful \<^verbatim>\<open>get\<close> leaves the cache as it
  was.  \<^verbatim>\<open>set(key, value, ttl)\<close> stores the value with \<^verbatim>\<open>expiresAt = now + ttl*1000\<close>
  whatever was stored before and touches no other key.  An entry set with a TTL of one
  second is returned 500 ms later and absent 1500 ms later.
\<close>

theorem MemoryCache_get_set_contract:
  "fst (MemoryCache_get now key c) =
     (case c key of
        None \<Rightarrow> None
      | Some entry \<Rightarrow> if now \<le> expiresAt entry then Some (data entry) else None)
   \<and> snd (MemoryCache_get now key c) k =
     (if k = key \<and> fst (MemoryCache_get now key c) = None then None else c k)
   \<and> MemoryCache_set now key d ttl c k =
     (if k = key then Some \<lparr>data = d, expiresAt = now + ttl * 1000\<rparr> else c k)
   \<and> fst (MemoryCache_get (now + 500) key (MemoryCache_set now key d 1 c)) = Some d
   \<and> fst (MemoryCache_get (now + 1500) key (MemoryCache_set now key d 1 c)) = None
   \<and> snd (MemoryCache_get (now + 1500) key (MemoryCache_set now key d 1 c)) key = None"
  by (simp add: MemoryCache_get_def MemoryCache_set_def split: option.split)

section \<open>Cache hits\<close>

lemma lisbonCached_lookup:
  "t \<le> 900000 \<Longrightarrow>
     fst (MemoryCache_get (clock (lisbonCached t)) (cacheKey ''Lisbon'' celsius)
            (weatherCache (lisbonCached t))) = Some (TemperatureValue lisbonRecord)"
  by (simp add: lisbonCached_def MemoryCache_get_def)

lemma emptyWorld_lookup:
  "MemoryCache_get (clock (emptyWorld t)) key (weatherCache (emptyWorld t)) = (None, Map.empty)"
  by (simp add: emptyWorld_def MemoryCache_get_def)

lemma emptyWorld_after_lookup:
  "emptyWorld t\<lparr>weatherCache := Map.empty\<rparr> = emptyWorld t"
  by (simp add: emptyWorld_def)

text \<open>
  Claim C8.  When the lookup under the key of a valid location finds a record,
  \<^verbatim>\<open>getCurrentTemperature\<close> returns that record with only \<^verbatim>\<open>connectionStatus\<close>
  overwritten (temperature, unit, location and lastUpdate are the cached ones), whatever
  the provider would do: the provider does not occur in the result and the state of the
  service is the one the call started from, so no fetch took place and the cached record
  is still the one stored.  The offline relabel of the \<^verbatim>\<open>catch\<close> block likewise returns
  a copy and leaves the cache as it was.
\<close>

theorem cache_hit_returns_relabelled_copy:
  assumes "loc \<noteq> []" and "length loc \<le> 50"
    and "fst (MemoryCache_get (clock w) (cacheKey loc u) (weatherCache w)) = Some (TemperatureValue r)"
  shows "getCurrentTemperature e http loc u w =
           (Inr (r\<lparr>connectionStatus := if isStale e (clock w) r then stale else online\<rparr>), w)
       \<and> catchBlock loc u w = (Inr (r\<lparr>connectionStatus := offline\<rparr>), w)
       \<and> (\<forall>r'. fst (getCurrentTemperature e http loc u w) = Inr r' \<or> fst (catchBlock loc u w) = Inr r' \<longrightarrow>
             temperature r' = temperature r \<and> unit r' = unit r \<and> location r' = location r
             \<and> lastUpdate r' = lastUpdate r)
       \<and> fst (MemoryCache_get (clock w) (cacheKey loc u)
                 (weatherCache (snd (getCurrentTemperature e http loc u w)))) = Some (TemperatureValue r)"
proof -
  have hit: "getCurrentTemperature e http loc u w =
           (Inr (r\<lparr>connectionStatus := if isStale e (clock w) r then stale else online\<rparr>), w)"
    by (simp add: getCurrentTemperature_def cacheLookup_hit[OF assms])
  have off: "catchBlock loc u w = (Inr (r\<lparr>connectionStatus := offline\<rparr>), w)"
    by (rule catchBlock_hit[OF assms(3)])
  show ?thesis
    unfolding hit off using assms(3) by auto
qed


theorem cache_hit_returns_relabelled_copy_witness:
  "''Lisbon'' \<noteq> [] \<and> length ''Lisbon'' \<le> 50
   \<and> fst (MemoryCache_get (clock (lisbonCached 1000)) (cacheKey ''Lisbon'' celsius)
            (weatherCache (lisbonCached 1000))) = Some (TemperatureValue lisbonRecord)
   \<and> getCurrentTemperature defaultEnv (respond 25) ''Lisbon'' celsius (lisbonCached 1000) =
        (Inr lisbonRecord, lisbonCached 1000)
   \<and> catchBlock ''Lisbon'' celsius (lisbonCached 1000) =
        (Inr (lisbonRecord\<lparr>connectionStatus := offline\<rparr>), lisbonCached 1000)"
proof -
  have h1: "''Lisbon'' \<noteq> []" by simp
  have h2: "length ''Lisbon'' \<le> 50" by simp
  have h3: "fst (MemoryCache_get (clock (lisbonCached 1000)) (cacheKey ''Lisbon'' celsius)
            (weatherCache (lisbonCached 1000))) = Some (TemperatureValue lisbonRecord)"
    by (simp add: lisbonCached_lookup)
  have s: "\<not> isStale defaultEnv (clock (lisbonCached 1000)) lisbonRecord"
    by (simp add: isStale_def cacheAge_def defaultEnv_def)
  have r: "lisbonRecord\<lparr>connectionStatus := online\<rparr> = lisbonRecord"
    by (simp add: lisbonRecord_def)
  note t = cache_hit_returns_relabelled_copy[OF h1 h2 h3, of defaultEnv "respond 25"]
  have a: "getCurrentTemperature defaultEnv (respond 25) ''Lisbon'' celsius (lisbonCached 1000) =
        (Inr lisbonRecord, lisbonCached 1000)"
    using conjunct1[OF t] by (simp only: s r if_False)
  have b: "catchBlock ''Lisbon'' celsius (lisbonCached 1000) =
        (Inr (lisbonRecord\<lparr>connectionStatus := offline\<rparr>), lisbonCached 1000)"
    by (rule conjunct1[OF conjunct2[OF t]])
  from h1 h2 h3 a b show ?thesis by (intro conjI)
qed

section \<open>Failures on the miss path\<close>

text \<open>
  Claim C3.  For a valid location whose first lookup misses, when the provider call
  fails (a rejection such as the timeout, or a response that is not ok), the call ends as
  the \<^verbatim>\<open>catch\<close> block does in the state the provider left: if the second lookup finds
  a record it is returned with \<^verbatim>\<open>connectionStatus = offline\<close>, and if it finds no entry
  the call fails with \<^verbatim>\<open>WEATHER_API_ERROR\<close> and the message that no cached data is
  available.
\<close>

theorem fetch_failure_falls_back_to_cache:
  assumes "loc \<noteq> []" and "length loc \<le> 50"
    and "asTemperatureData
           (fst (MemoryCache_get (clock w) (cacheKey loc u) (weatherCache w))) = Falsy"
    and "http loc
           (w\<lparr>weatherCache := snd (MemoryCache_get (clock w) (cacheKey loc u) (weatherCache w))\<rparr>)
         = (out, w2)"
    and "out = Rejected msg \<or> out = Responded False status body"
  shows "getCurrentTemperature e http loc u w = catchBlock loc u w2
       \<and> (\<forall>r. fst (MemoryCache_get (clock w2) (cacheKey loc u) (weatherCache w2))
                = Some (TemperatureValue r) \<longrightarrow>
              getCurrentTemperature e http loc u w = (Inr (r\<lparr>connectionStatus := offline\<rparr>), w2))
       \<and> (fst (MemoryCache_get (clock w2) (cacheKey loc u) (weatherCache w2)) = None \<longrightarrow>
              fst (getCurrentTemperature e http loc u w) =
                Inl (ProviderUnavailable
                       ''Unable to retrieve weather data and no cached data available''))"
proof -
  obtain m where f: "fetchWeatherData http loc
           (w\<lparr>weatherCache := snd (MemoryCache_get (clock w) (cacheKey loc u) (weatherCache w))\<rparr>)
         = (Inl (ProviderUnavailable m), w2)"
    using fetchWeatherData_fails[where http=http and loc=loc, OF assms(4,5)] by blast
  have g: "getCurrentTemperature e http loc u w = catchBlock loc u w2"
    by (simp add: getCurrentTemperature_miss[OF assms(1-3) f] tryBlock_error)
  show ?thesis
    unfolding g by (auto simp: catchBlock_hit catchBlock_absent)
qed

theorem fetch_failure_falls_back_to_cache_witness:
  "''Lisbon'' \<noteq> [] \<and> length ''Lisbon'' \<le> 50
   \<and> asTemperatureData
        (fst (MemoryCache_get (clock (emptyWorld 1000)) (cacheKey ''Lisbon'' celsius)
                (weatherCache (emptyWorld 1000)))) = Falsy
   \<and> getCurrentTemperature defaultEnv timeoutDuringStore ''Lisbon'' celsius (emptyWorld 1000) =
        (Inr (lisbonRecord\<lparr>connectionStatus := offline\<rparr>), lisbonCached 1000)
   \<and> fst (getCurrentTemperature defaultEnv timeoutOnly ''Lisbon'' celsius (emptyWorld 1000)) =
        Inl (ProviderUnavailable ''Unable to retrieve weather data and no cached data available'')"
proof -
  have h1: "''Lisbon'' \<noteq> []" by simp
  have h2: "length ''Lisbon'' \<le> 50" by simp
  have h3: "asTemperatureData
        (fst (MemoryCache_get (clock (emptyWorld 1000)) (cacheKey ''Lisbon'' celsius)
                (weatherCache (emptyWorld 1000)))) = Falsy"
    by (simp add: emptyWorld_lookup)
  have w1: "emptyWorld 1000\<lparr>weatherCache := snd (MemoryCache_get (clock (emptyWorld 1000))
              (cacheKey ''Lisbon'' celsius) (weatherCache (emptyWorld 1000)))\<rparr> = emptyWorld 1000"
    by (simp add: emptyWorld_lookup emptyWorld_after_lookup)
  have p1: "timeoutDuringStore ''Lisbon'' (emptyWorld 1000\<lparr>weatherCache :=
              snd (MemoryCache_get (clock (emptyWorld 1000))
              (cacheKey ''Lisbon'' celsius) (weatherCache (emptyWorld 1000)))\<rparr>)
            = (Rejected ''This operation was aborted'', lisbonCached 1000)"
    unfolding w1 by (simp add: timeoutDuringStore_def emptyWorld_def lisbonCached_def)
  have p2: "timeoutOnly ''Lisbon'' (emptyWorld 1000\<lparr>weatherCache :=
              snd (MemoryCache_get (clock (emptyWorld 1000))
              (cacheKey ''Lisbon'' celsius) (weatherCache (emptyWorld 1000)))\<rparr>)
            = (Rejected ''This operation was aborted'', emptyWorld 1000)"
    unfolding w1 by (simp add: timeoutOnly_def)
  have k: "Rejected ''This operation was aborted'' = Rejected ''This operation was aborted''
           \<or> Rejected ''This operation was aborted'' = Responded False 0 (reading 0)"
    by simp
  have l1: "fst (MemoryCache_get (clock (lisbonCached 1000)) (cacheKey ''Lisbon'' celsius)
            (weatherCache (lisbonCached 1000))) = Some (TemperatureValue lisbonRecord)"
    by (simp add: lisbonCached_lookup)
  have l2: "fst (MemoryCache_get (clock (emptyWorld 1000)) (cacheKey ''Lisbon'' celsius)
            (weatherCache (emptyWorld 1000))) = None"
    by (simp add: emptyWorld_lookup)
  note t1 = fetch_failure_falls_back_to_cache[where http=timeoutDuringStore and loc="''Lisbon''"
      and w="emptyWorld 1000" and u=celsius and e=defaultEnv, OF h1 h2 h3 p1 k]
  note t2 = fetch_failure_falls_back_to_cache[where http=timeoutOnly and loc="''Lisbon''"
      and w="emptyWorld 1000" and u=celsius and e=defaultEnv, OF h1 h2 h3 p2 k]
  have a: "getCurrentTemperature defaultEnv timeoutDuringStore ''Lisbon'' celsius (emptyWorld 1000) =
        (Inr (lisbonRecord\<lparr>connectionStatus := offline\<rparr>), lisbonCached 1000)"
    using conjunct1[OF conjunct2[OF t1]] l1 by blast
  have b: "fst (getCurrentTemperature defaultEnv timeoutOnly ''Lisbon'' celsius (emptyWorld 1000)) =
        Inl (ProviderUnavailable ''Unable to retrieve weather data and no cached data available'')"
    using conjunct2[OF conjunct2[OF t2]] l2 by blast
  from h1 h2 h3 a b show ?thesis by (intro conjI)
qed

lemma getCurrentTemperature_implausible:
  assumes "loc \<noteq> []" and "length loc \<le> 50"
    and "asTemperatureData
           (fst (MemoryCache_get (clock w) (cacheKey loc u) (weatherCache w))) = Falsy"
    and "http loc
           (w\<lparr>weatherCache := snd (MemoryCache_get (clock w) (cacheKey loc u) (weatherCache w))\<rparr>)
         = (Responded True status body, w2)"
    and "temp_c body < - 90 \<or> temp_c body > 60"
  shows "getCurrentTemperature e http loc u w = catchBlock loc u w2"
proof -
  have f: "fetchWeatherData http loc
           (w\<lparr>weatherCache := snd (MemoryCache_get (clock w) (cacheKey loc u) (weatherCache w))\<rparr>)
         = (Inr body, w2)"
    using assms(4) by (rule fetchWeatherData_ok)
  show ?thesis
    by (simp add: getCurrentTemperature_miss[OF assms(1-3) f] tryBlock_implausible[OF assms(5)])
qed

lemma lookup_Falsy_again:
  assumes "asTemperatureData (fst (MemoryCache_get now key c)) = Falsy"
  shows "fst (MemoryCache_get now key (snd (MemoryCache_get now key c))) = None
       \<or> fst (MemoryCache_get now key (snd (MemoryCache_get now key c))) = Some (NumberValue 0)"
proof (cases "fst (MemoryCache_get now key c)")
  case None
  then show ?thesis by (simp add: MemoryCache_get_idem)
next
  case (Some v)
  with assms show ?thesis
    by (cases v) (auto simp: MemoryCache_get_idem split: if_splits)
qed

lemma catchBlock_Falsy:
  assumes "asTemperatureData (fst (MemoryCache_get (clock w) (cacheKey loc u) (weatherCache w))) = Falsy"
  shows "fst (catchBlock loc u w) =
           Inl (ProviderUnavailable ''Unable to retrieve weather data and no cached data available'')"
  using assms by (simp add: catchBlock_def ProviderUnavailable_def case_prod_beta)

text \<open>
  Claim C2, as amended.  For a valid location whose first lookup misses, when the
  provider answers with a Celsius reading below -90 or above 60, the reading is not
  stored: every entry of the cache after the call is an entry the cache had when the
  provider call settled.  The rejection is handled by the \<^verbatim>\<open>catch\<close> block like a failed
  fetch: a record found by the second lookup is returned with
  \<^verbatim>\<open>connectionStatus = offline\<close>; when the second lookup finds no entry, and in
  particular whenever nothing else touched the service during the provider call, the
  call fails with \<^verbatim>\<open>WEATHER_API_ERROR\<close> and the message that no cached data is
  available.
\<close>

theorem implausible_reading_not_cached:
  assumes "loc \<noteq> []" and "length loc \<le> 50"
    and "asTemperatureData
           (fst (MemoryCache_get (clock w) (cacheKey loc u) (weatherCache w))) = Falsy"
    and "http loc
           (w\<lparr>weatherCache := snd (MemoryCache_get (clock w) (cacheKey loc u) (weatherCache w))\<rparr>)
         = (Responded True status body, w2)"
    and "temp_c body < - 90 \<or> temp_c body > 60"
  shows "(\<forall>k. weatherCache (snd (getCurrentTemperature e http loc u w)) k = None
            \<or> weatherCache (snd (getCurrentTemperature e http loc u w)) k = weatherCache w2 k)
       \<and> (\<forall>r. fst (MemoryCache_get (clock w2) (cacheKey loc u) (weatherCache w2))
                = Some (TemperatureValue r) \<longrightarrow>
              getCurrentTemperature e http loc u w = (Inr (r\<lparr>connectionStatus := offline\<rparr>), w2))
       \<and> (fst (MemoryCache_get (clock w2) (cacheKey loc u) (weatherCache w2)) = None \<longrightarrow>
              fst (getCurrentTemperature e http loc u w) =
                Inl (ProviderUnavailable
                       ''Unable to retrieve weather data and no cached data available''))
       \<and> (w2 = w\<lparr>weatherCache := snd (MemoryCache_get (clock w) (cacheKey loc u) (weatherCache w))\<rparr>
            \<longrightarrow>
              fst (getCurrentTemperature e http loc u w) =
                Inl (ProviderUnavailable
                       ''Unable to retrieve weather data and no cached data available''))"
proof -
  have g: "getCurrentTemperature e http loc u w = catchBlock loc u w2"
    using assms by (rule getCurrentTemperature_implausible)
  have a: "\<forall>k. weatherCache (snd (catchBlock loc u w2)) k = None
            \<or> weatherCache (snd (catchBlock loc u w2)) k = weatherCache w2 k"
    by (simp add: catchBlock_world MemoryCache_get_entries)
  have d: "fst (catchBlock loc u w2) =
                Inl (ProviderUnavailable
                       ''Unable to retrieve weather data and no cached data available'')"
    if eq: "w2 = w\<lparr>weatherCache := snd (MemoryCache_get (clock w) (cacheKey loc u) (weatherCache w))\<rparr>"
  proof -
    have "asTemperatureData (fst (MemoryCache_get (clock w2) (cacheKey loc u) (weatherCache w2))) = Falsy"
      using lookup_Falsy_again[OF assms(3)] by (auto simp: eq)
    then show ?thesis by (rule catchBlock_Falsy)
  qed
  show ?thesis
    unfolding g using a d by (auto simp: catchBlock_hit catchBlock_absent)
qed


lemma emptyWorld_lookup_update:
  "emptyWorld t\<lparr>weatherCache := snd (MemoryCache_get (clock (emptyWorld t)) key
                                        (weatherCache (emptyWorld t)))\<rparr> = emptyWorld t"
  by (simp add: emptyWorld_lookup emptyWorld_after_lookup)

lemma emptyWorld_lookup_Falsy:
  "asTemperatureData
     (fst (MemoryCache_get (clock (emptyWorld t)) key (weatherCache (emptyWorld t)))) = Falsy"
  by (simp add: emptyWorld_lookup)

lemma respond_emptyWorld:
  "respond c loc
     (emptyWorld t\<lparr>weatherCache := snd (MemoryCache_get (clock (emptyWorld t)) key
                                        (weatherCache (emptyWorld t)))\<rparr>)
   = (Responded True 200 (reading c), emptyWorld t)"
  unfolding emptyWorld_lookup_update by (simp add: respond_def)

theorem implausible_reading_not_cached_witness:
  "''Lisbon'' \<noteq> [] \<and> length ''Lisbon'' \<le> 50
   \<and> asTemperatureData
        (fst (MemoryCache_get (clock (emptyWorld 1000)) (cacheKey ''Lisbon'' celsius)
                (weatherCache (emptyWorld 1000)))) = Falsy
   \<and> respond 61 ''Lisbon''
        (emptyWorld 1000\<lparr>weatherCache := snd (MemoryCache_get (clock (emptyWorld 1000))
           (cacheKey ''Lisbon'' celsius) (weatherCache (emptyWorld 1000)))\<rparr>)
      = (Responded True 200 (reading 61), emptyWorld 1000)
   \<and> (temp_c (reading 61) < - 90 \<or> temp_c (reading 61) > 60)
   \<and> weatherCache (snd (getCurrentTemperature defaultEnv (respond 61) ''Lisbon'' celsius
                          (emptyWorld 1000))) (cacheKey ''Lisbon'' celsius) = None
   \<and> fst (getCurrentTemperature defaultEnv (respond 61) ''Lisbon'' celsius (emptyWorld 1000)) =
        Inl (ProviderUnavailable ''Unable to retrieve weather data and no cached data available'')"
proof -
  have h1: "''Lisbon'' \<noteq> []" by simp
  have h2: "length ''Lisbon'' \<le> 50" by simp
  note h3 = emptyWorld_lookup_Falsy[of 1000 "cacheKey ''Lisbon'' celsius"]
  note h4 = respond_emptyWorld[of 61 "''Lisbon''" 1000 "cacheKey ''Lisbon'' celsius"]
  have h5: "temp_c (reading 61) < - 90 \<or> temp_c (reading 61) > 60"
    by (simp add: reading_def)
  note t = implausible_reading_not_cached[where http="respond 61" and loc="''Lisbon''"
      and w="emptyWorld 1000" and u=celsius and e=defaultEnv, OF h1 h2 h3 h4 h5]
  have e: "weatherCache (emptyWorld 1000) (cacheKey ''Lisbon'' celsius) = None"
    by (simp add: emptyWorld_def)
  have a: "weatherCache (snd (getCurrentTemperature defaultEnv (respond 61) ''Lisbon'' celsius
                          (emptyWorld 1000))) (cacheKey ''Lisbon'' celsius) = None"
    using conjunct1[OF t] e by metis
  have l: "fst (MemoryCache_get (clock (emptyWorld 1000)) (cacheKey ''Lisbon'' celsius)
            (weatherCache (emptyWorld 1000))) = None"
    by (simp add: emptyWorld_lookup)
  have b: "fst (getCurrentTemperature defaultEnv (respond 61) ''Lisbon'' celsius (emptyWorld 1000)) =
        Inl (ProviderUnavailable ''Unable to retrieve weather data and no cached data available'')"
    using conjunct1[OF conjunct2[OF conjunct2[OF t]]] l by blast
  from h1 h2 h3 h4 h5 a b show ?thesis by (intro conjI)
qed

text \<open>Claim C2 as stated fails: with an empty cache and a provider reading of 61 the
  call fails with \<^verbatim>\<open>WEATHER_API_ERROR\<close>, the error of an unavailable provider, and
  not with the error the plausibility check threw.\<close>

theorem implausible_reading_kind_counterexample:
  "fst (getCurrentTemperature defaultEnv (respond 61) ''Lisbon'' celsius (emptyWorld 1000)) =
     Inl (ProviderUnavailable ''Unable to retrieve weather data and no cached data available'')
   \<and> fst (getCurrentTemperature defaultEnv (respond 61) ''Lisbon'' celsius (emptyWorld 1000)) \<noteq>
     Inl ImplausibleReading"
proof -
  have h1: "''Lisbon'' \<noteq> []" by simp
  have h2: "length ''Lisbon'' \<le> 50" by simp
  note h3 = emptyWorld_lookup_Falsy[of 1000 "cacheKey ''Lisbon'' celsius"]
  note h4 = respond_emptyWorld[of 61 "''Lisbon''" 1000 "cacheKey ''Lisbon'' celsius"]
  have h5: "temp_c (reading 61) < - 90 \<or> temp_c (reading 61) > 60"
    by (simp add: reading_def)
  have g: "getCurrentTemperature defaultEnv (respond 61) ''Lisbon'' celsius (emptyWorld 1000)
           = catchBlock ''Lisbon'' celsius (emptyWorld 1000)"
    by (rule getCurrentTemperature_implausible[where http="respond 61", OF h1 h2 h3 h4 h5])
  have c: "fst (catchBlock ''Lisbon'' celsius (emptyWorld 1000)) =
     Inl (ProviderUnavailable ''Unable to retrieve weather data and no cached data available'')"
    by (rule catchBlock_Falsy[OF h3])
  have n: "ProviderUnavailable ''Unable to retrieve weather data and no cached data available''
           \<noteq> ImplausibleReading"
    by (simp add: ProviderUnavailable_def ImplausibleReading_def)
  show ?thesis
    unfolding g c using n by simp
qed

section \<open>The plausibility check, conversion and rounding\<close>

lemma tryBlock_plausible:
  assumes "\<not> (temp_c api < - 90 \<or> temp_c api > 60)"
  shows "tryBlock e loc u (Inr api) w =
           (Inr \<lparr>temperature = toFixed 1 (if u = fahrenheit then celsiusToFahrenheit (temp_c api)
                                            else temp_c api),
                 unit = unitSymbol u, location = name api,
                 lastUpdate = formatTimestamp e (clock w), connectionStatus = online\<rparr>,
            w\<lparr>weatherCache :=
                MemoryCache_set (clock w) (cacheKey loc u)
                  (TemperatureValue
                     \<lparr>temperature = toFixed 1 (if u = fahrenheit
                                                then celsiusToFahrenheit (temp_c api)
                                                else temp_c api),
                      unit = unitSymbol u, location = name api,
                      lastUpdate = formatTimestamp e (clock w), connectionStatus = online\<rparr>)
                  (cache_ttl e) (weatherCache w)\<rparr>)"
  using assms by (simp add: tryBlock_def Let_def)

lemma getCurrentTemperature_respond_emptyWorld:
  "getCurrentTemperature e (respond c) ''Lisbon'' u (emptyWorld t) =
     (case tryBlock e ''Lisbon'' u (Inr (reading c)) (emptyWorld t) of
        (Inr temperatureData, w3) \<Rightarrow> (Inr temperatureData, w3)
      | (Inl err, w3) \<Rightarrow> catchBlock ''Lisbon'' u w3)"
proof -
  have h1: "''Lisbon'' \<noteq> []" by simp
  have h2: "length ''Lisbon'' \<le> 50" by simp
  have f: "fetchWeatherData (respond c) ''Lisbon''
             (emptyWorld t\<lparr>weatherCache := snd (MemoryCache_get (clock (emptyWorld t))
                (cacheKey ''Lisbon'' u) (weatherCache (emptyWorld t)))\<rparr>)
           = (Inr (reading c), emptyWorld t)"
    by (rule fetchWeatherData_ok[where http="respond c", OF respond_emptyWorld])
  show ?thesis
    by (rule getCurrentTemperature_miss[OF h1 h2 emptyWorld_lookup_Falsy f])
qed


lemma temp_c_reading [simp]: "temp_c (reading c) = c"
  by (simp add: reading_def)








section \<open>Refresh\<close>

lemma refreshKey_neq_cacheKey [simp]:
  "refreshKey loc \<noteq> cacheKey loc' u" "cacheKey loc' u \<noteq> refreshKey loc"
  by (simp_all add: refreshKey_def cacheKey_def)

lemma MemoryCache_get_other:
  "k \<noteq> key \<Longrightarrow> snd (MemoryCache_get now key c) k = c k"
  by (simp add: MemoryCache_get_def split: option.split)

lemma cacheLookup_frame:
  "clock (snd (cacheLookup e loc u w)) = clock w
   \<and> (\<forall>k. k \<noteq> cacheKey loc u \<longrightarrow> weatherCache (snd (cacheLookup e loc u w)) k = weatherCache w k)"
  by (simp add: cacheLookup_def case_prod_beta MemoryCache_get_other split: truthiness.split)

lemma tryBlock_frame:
  "clock (snd (tryBlock e loc u fetched w)) = clock w
   \<and> (\<forall>k. k \<noteq> cacheKey loc u \<longrightarrow> weatherCache (snd (tryBlock e loc u fetched w)) k = weatherCache w k)"
  by (simp add: tryBlock_def Let_def MemoryCache_set_def split: sum.split)

lemma catchBlock_frame:
  "clock (snd (catchBlock loc u w)) = clock w
   \<and> (\<forall>k. k \<noteq> cacheKey loc u \<longrightarrow> weatherCache (snd (catchBlock loc u w)) k = weatherCache w k)"
  by (simp add: catchBlock_world MemoryCache_get_other)

lemma getCurrentTemperature_frame:
  assumes "\<And>w. snd (http loc w) = w" and "k \<noteq> cacheKey loc u"
  shows "weatherCache (snd (getCurrentTemperature e http loc u w)) k = weatherCache w k"
proof -
  obtain p w1 where l: "cacheLookup e loc u w = (p, w1)" by (cases "cacheLookup e loc u w")
  have w1: "weatherCache w1 k = weatherCache w k"
    using cacheLookup_frame[of e loc u w] assms(2) by (simp add: l)
  show ?thesis
  proof (cases p)
    case (Done result)
    then show ?thesis by (simp add: getCurrentTemperature_def l w1)
  next
    case Await
    obtain fetched w2 where f: "fetchWeatherData http loc w1 = (fetched, w2)"
      by (cases "fetchWeatherData http loc w1")
    have "snd (fetchWeatherData http loc w1) = snd (http loc w1)"
      by (simp add: fetchWeatherData_def case_prod_beta split: http_outcome.split)
    then have "w2 = w1" using f assms(1) by simp
    with f have f: "fetchWeatherData http loc w1 = (fetched, w1)" by simp
    obtain res w3 where t: "tryBlock e loc u fetched w1 = (res, w3)"
      by (cases "tryBlock e loc u fetched w1")
    have w3: "weatherCache w3 k = weatherCache w k"
      using tryBlock_frame[of e loc u fetched w1] assms(2) by (simp add: t w1)
    show ?thesis
    proof (cases res)
      case (Inl err)
      then show ?thesis
        using catchBlock_frame[of loc u w3] assms(2)
        by (simp add: getCurrentTemperature_def l Await f t w3)
    next
      case (Inr d)
      then show ?thesis by (simp add: getCurrentTemperature_def l Await f t w3)
    qed
  qed
qed

lemma cacheLookup_absent:
  assumes "weatherCache w (cacheKey loc u) = None"
  shows "cacheLookup e loc u w =
           (if loc = [] \<or> length loc > 50
            then (Done (Inl InvalidInput), w) else (Await, w))"
  using assms by (simp add: cacheLookup_def MemoryCache_get_def InvalidInput_def)


lemma getCurrentTemperature_absent:
  assumes "weatherCache w (cacheKey loc u) = None"
  shows "getCurrentTemperature e http loc u w =
           (if loc = [] \<or> length loc > 50 then (Inl InvalidInput, w)
            else case fetchWeatherData http loc w of
                   (fetched, w2) \<Rightarrow>
                     (case tryBlock e loc u fetched w2 of
                        (Inr temperatureData, w3) \<Rightarrow> (Inr temperatureData, w3)
                      | (Inl err, w3) \<Rightarrow> catchBlock loc u w3))"
  by (simp add: getCurrentTemperature_def cacheLookup_absent[OF assms])

lemma snd_respond [simp]: "snd (respond c loc w) = w"
  by (simp add: respond_def)

lemma snd_timeoutOnly [simp]: "snd (timeoutOnly loc w) = w"
  by (simp add: timeoutOnly_def)

lemma getCurrentTemperature_timeoutOnly_absent:
  assumes "weatherCache w (cacheKey loc u) = None"
  shows "weatherCache (snd (getCurrentTemperature e timeoutOnly loc u w)) (cacheKey loc u) = None"
proof -
  have f: "fetchWeatherData timeoutOnly loc w =
             (Inl (ApiError ''WEATHER_API_ERROR'' ''This operation was aborted''), w)"
    by (simp add: fetchWeatherData_def timeoutOnly_def)
  have c: "weatherCache (snd (catchBlock loc u w)) (cacheKey loc u) = None"
    using assms by (simp add: catchBlock_world MemoryCache_get_def)
  show ?thesis
    using assms c by (simp add: getCurrentTemperature_absent[OF assms] f tryBlock_error)
qed

text \<open>
  Claim C6.  \<^verbatim>\<open>refreshTemperature\<close> is \<^verbatim>\<open>getCurrentTemperature\<close> started in the
  state in which, at the same clock reading, the record under the key of the location and
  unit is gone, the refresh key of the location holds the clock reading with expiry 30000
  ms later, and every other key is as before.  This holds in every state, eligible or
  not.  From that state the lookup cannot hit: an invalid location fails at once with the
  writes in place, and a valid one goes to the provider.  With a provider that answers
  (whatever the reading) or times out while nothing else touches the service, the guard
  entry is in the cache when the call ends, and after the timeout the record is still
  absent.
\<close>

theorem refreshTemperature_writes_then_delegates:
  "(\<exists>w'. refreshTemperature e http loc u w = getCurrentTemperature e http loc u w'
         \<and> clock w' = clock w
         \<and> (\<forall>k. weatherCache w' k =
                  (if k = refreshKey loc
                   then Some \<lparr>data = NumberValue (clock w), expiresAt = clock w + 30000\<rparr>
                   else if k = cacheKey loc u then None else weatherCache w k))
         \<and> getCurrentTemperature e http loc u w' =
             (if loc = [] \<or> length loc > 50 then (Inl InvalidInput, w')
              else case fetchWeatherData http loc w' of
                     (fetched, w2) \<Rightarrow>
                       (case tryBlock e loc u fetched w2 of
                          (Inr temperatureData, w3) \<Rightarrow> (Inr temperatureData, w3)
                        | (Inl err, w3) \<Rightarrow> catchBlock loc u w3)))
   \<and> weatherCache (snd (refreshTemperature e (respond c) loc u w)) (refreshKey loc) =
       Some \<lparr>data = NumberValue (clock w), expiresAt = clock w + 30000\<rparr>
   \<and> weatherCache (snd (refreshTemperature e timeoutOnly loc u w)) (refreshKey loc) =
       Some \<lparr>data = NumberValue (clock w), expiresAt = clock w + 30000\<rparr>
   \<and> weatherCache (snd (refreshTemperature e timeoutOnly loc u w)) (cacheKey loc u) = None"
proof -
  define w' where
    "w' = w\<lparr>weatherCache :=
              MemoryCache_set (clock w) (refreshKey loc) (NumberValue (clock w)) 30
                (MemoryCache_del (cacheKey loc u) (weatherCache w))\<rparr>"
  have r: "refreshTemperature e http loc u w = getCurrentTemperature e http loc u w'" for http
    by (simp add: refreshTemperature_def w'_def Let_def)
  have ck: "clock w' = clock w"
    by (simp add: w'_def)
  have contents: "weatherCache w' k =
                  (if k = refreshKey loc
                   then Some \<lparr>data = NumberValue (clock w), expiresAt = clock w + 30000\<rparr>
                   else if k = cacheKey loc u then None else weatherCache w k)" for k
    by (simp add: w'_def MemoryCache_set_def MemoryCache_del_def)
  have absent: "weatherCache w' (cacheKey loc u) = None"
    by (simp add: contents)
  have guard: "weatherCache w' (refreshKey loc) =
       Some \<lparr>data = NumberValue (clock w), expiresAt = clock w + 30000\<rparr>"
    by (simp add: contents)
  have a: "\<exists>w'. refreshTemperature e http loc u w = getCurrentTemperature e http loc u w'
         \<and> clock w' = clock w
         \<and> (\<forall>k. weatherCache w' k =
                  (if k = refreshKey loc
                   then Some \<lparr>data = NumberValue (clock w), expiresAt = clock w + 30000\<rparr>
                   else if k = cacheKey loc u then None else weatherCache w k))
         \<and> getCurrentTemperature e http loc u w' =
             (if loc = [] \<or> length loc > 50 then (Inl InvalidInput, w')
              else case fetchWeatherData http loc w' of
                     (fetched, w2) \<Rightarrow>
                       (case tryBlock e loc u fetched w2 of
                          (Inr temperatureData, w3) \<Rightarrow> (Inr temperatureData, w3)
                        | (Inl err, w3) \<Rightarrow> catchBlock loc u w3))"
    using r ck contents getCurrentTemperature_absent[OF absent, of e http]
    by (intro exI[of _ w'] conjI allI)
  have b: "weatherCache (snd (refreshTemperature e (respond c) loc u w)) (refreshKey loc) =
       Some \<lparr>data = NumberValue (clock w), expiresAt = clock w + 30000\<rparr>"
    unfolding r by (subst getCurrentTemperature_frame) (simp_all add: guard)
  have c: "weatherCache (snd (refreshTemperature e timeoutOnly loc u w)) (refreshKey loc) =
       Some \<lparr>data = NumberValue (clock w), expiresAt = clock w + 30000\<rparr>"
    unfolding r by (subst getCurrentTemperature_frame) (simp_all add: guard)
  have d: "weatherCache (snd (refreshTemperature e timeoutOnly loc u w)) (cacheKey loc u) = None"
    unfolding r by (rule getCurrentTemperature_timeoutOnly_absent[OF absent])
  from a b c d show ?thesis by (intro conjI)
qed

section \<open>Every cached record is online\<close>

lemma allOnline_empty: "allOnline Map.empty"
  by (simp add: allOnline_def)

lemma allOnline_subset:
  assumes "allOnline c" and "\<And>k. c' k = None \<or> c' k = c k"
  shows "allOnline c'"
  unfolding allOnline_def
proof (intro allI impI)
  fix k entry r
  assume h: "c' k = Some entry \<and> data entry = TemperatureValue r"
  with assms(2)[of k] have "c k = Some entry" by auto
  with h assms(1) show "connectionStatus r = online"
    unfolding allOnline_def by blast
qed

lemma allOnline_get: "allOnline c \<Longrightarrow> allOnline (snd (MemoryCache_get now key c))"
  by (erule allOnline_subset) (rule MemoryCache_get_entries)

lemma allOnline_del: "allOnline c \<Longrightarrow> allOnline (MemoryCache_del key c)"
  by (erule allOnline_subset) (simp add: MemoryCache_del_def)

lemma allOnline_cleanup: "allOnline c \<Longrightarrow> allOnline (cleanup now c)"
  by (erule allOnline_subset) (simp add: cleanup_def split: option.split)

lemma allOnline_set:
  assumes "allOnline c" and "\<And>r. v = TemperatureValue r \<Longrightarrow> connectionStatus r = online"
  shows "allOnline (MemoryCache_set now key v ttl c)"
  using assms unfolding allOnline_def MemoryCache_set_def Let_def
  by (auto split: if_splits)

lemma allOnline_set_record:
  "allOnline c \<Longrightarrow> connectionStatus r = online \<Longrightarrow>
     allOnline (MemoryCache_set now key (TemperatureValue r) ttl c)"
  by (rule allOnline_set) simp_all

lemma allOnline_set_number:
  "allOnline c \<Longrightarrow> allOnline (MemoryCache_set now key (NumberValue n) ttl c)"
  by (rule allOnline_set) simp_all

lemma allOnline_cacheLookup:
  "allOnline (weatherCache w) \<Longrightarrow> allOnline (weatherCache (snd (cacheLookup e loc u w)))"
  by (simp add: cacheLookup_def case_prod_beta allOnline_get split: truthiness.split)

lemma allOnline_tryBlock:
  "allOnline (weatherCache w) \<Longrightarrow> allOnline (weatherCache (snd (tryBlock e loc u fetched w)))"
  by (simp add: tryBlock_def Let_def allOnline_set_record split: sum.split)

lemma allOnline_catchBlock:
  "allOnline (weatherCache w) \<Longrightarrow> allOnline (weatherCache (snd (catchBlock loc u w)))"
  by (simp add: catchBlock_world allOnline_get)

lemma allOnline_checkRefreshEligibility:
  "allOnline (weatherCache w) \<Longrightarrow>
     allOnline (weatherCache (snd (checkRefreshEligibility loc w)))"
  by (simp add: checkRefreshEligibility_def case_prod_beta allOnline_get
           split: option.split cached.split)

lemma reachable_allOnline: "reachable e w \<Longrightarrow> allOnline (weatherCache w)"
proof (induction rule: reachable.induct)
  case (start t)
  show ?case by (simp add: emptyWorld_def allOnline_empty)
next
  case (tick w t)
  then show ?case by simp
next
  case (sweep w)
  then show ?case by (simp add: allOnline_cleanup)
next
  case (lookup w loc u)
  then show ?case by (simp add: allOnline_cacheLookup)
next
  case (settle w loc u fetched)
  then show ?case by (simp add: allOnline_tryBlock)
next
  case (fallback w loc u)
  then show ?case by (simp add: allOnline_catchBlock)
next
  case (invalidate w loc u)
  then show ?case by (simp add: allOnline_del)
next
  case (guard w loc)
  then show ?case by (simp add: allOnline_set_number)
next
  case (check w loc)
  then show ?case by (simp add: allOnline_checkRefreshEligibility)
qed

text \<open>The two exported functions that suspend stay within the reachable states as long
  as what runs during the provider call does.\<close>

lemma reachable_getCurrentTemperature:
  assumes "reachable e w" and "\<And>w. reachable e w \<Longrightarrow> reachable e (snd (http loc w))"
  shows "reachable e (snd (getCurrentTemperature e http loc u w))"
proof -
  obtain p w1 where l: "cacheLookup e loc u w = (p, w1)" by (cases "cacheLookup e loc u w")
  have r1: "reachable e w1"
    using reachable.lookup[OF assms(1), of loc u] by (simp add: l)
  show ?thesis
  proof (cases p)
    case (Done result)
    then show ?thesis by (simp add: getCurrentTemperature_def l r1)
  next
    case Await
    obtain fetched w2 where f: "fetchWeatherData http loc w1 = (fetched, w2)"
      by (cases "fetchWeatherData http loc w1")
    have "snd (fetchWeatherData http loc w1) = snd (http loc w1)"
      by (simp add: fetchWeatherData_def case_prod_beta split: http_outcome.split)
    then have r2: "reachable e w2" using f assms(2)[OF r1] by simp
    obtain res w3 where t: "tryBlock e loc u fetched w2 = (res, w3)"
      by (cases "tryBlock e loc u fetched w2")
    have r3: "reachable e w3"
      using reachable.settle[OF r2, of loc u fetched] by (simp add: t)
    show ?thesis
    proof (cases res)
      case (Inl err)
      then show ?thesis
        using reachable.fallback[OF r3, of loc u]
        by (simp add: getCurrentTemperature_def l Await f t)
    next
      case (Inr d)
      then show ?thesis by (simp add: getCurrentTemperature_def l Await f t r3)
    qed
  qed
qed

lemma reachable_refreshTemperature:
  assumes "reachable e w" and "\<And>w. reachable e w \<Longrightarrow> reachable e (snd (http loc w))"
  shows "reachable e (snd (refreshTemperature e http loc u w))"
proof -
  have "reachable e (w\<lparr>weatherCache := MemoryCache_del (cacheKey loc u) (weatherCache w)\<rparr>)"
    using assms(1) by (rule reachable.invalidate)
  from reachable.guard[OF this, of loc]
  have "reachable e (w\<lparr>weatherCache :=
          MemoryCache_set (clock w) (refreshKey loc) (NumberValue (clock w)) 30
            (MemoryCache_del (cacheKey loc u) (weatherCache w))\<rparr>)"
    by simp
  then show ?thesis
    unfolding refreshTemperature_def Let_def
    by (rule reachable_getCurrentTemperature) (rule assms(2))
qed


lemma formatTimestamp_midnight: "tzOffset e = 0 \<Longrightarrow> formatTimestamp e 0 = ''Updated at 00:00''"
  by (simp add: formatTimestamp_def getHours_def getMinutes_def natToString.simps padStart_def
        digitChar_def)

lemma first_fetch:
  assumes "tzOffset e = 0"
  shows "getCurrentTemperature e (respond 20) ''Lisbon'' celsius (emptyWorld 0) =
           (Inr lisbonRecord,
            \<lparr>clock = 0,
             weatherCache = [cacheKey ''Lisbon'' celsius \<mapsto>
               \<lparr>data = TemperatureValue lisbonRecord, expiresAt = cache_ttl e * 1000\<rparr>]\<rparr>)"
proof -
  have p: "\<not> (temp_c (reading 20) < - 90 \<or> temp_c (reading 20) > 60)" by simp
  have r: "\<lparr>temperature = toFixed 1 (if celsius = fahrenheit
                                        then celsiusToFahrenheit (temp_c (reading 20))
                                        else temp_c (reading 20)),
             unit = unitSymbol celsius, location = name (reading 20),
             lastUpdate = formatTimestamp e (clock (emptyWorld 0)),
             connectionStatus = online\<rparr> = lisbonRecord"
    by (simp add: lisbonRecord_def toFixed_def formatTimestamp_midnight[OF assms] reading_def
          emptyWorld_def)
  show ?thesis
    unfolding getCurrentTemperature_respond_emptyWorld tryBlock_plausible[OF p] r
    by (simp add: emptyWorld_def MemoryCache_set_def)
qed

text \<open>
  Claim C10.  In every state the service can reach, each temperature record held in the
  cache has \<^verbatim>\<open>connectionStatus = online\<close>: the only write of a record is the one of
  the \<^verbatim>\<open>try\<close> block, of a record built with status online, and the relabelled copies
  are returned without being written.
\<close>

theorem cached_records_are_online:
  assumes "reachable e w"
    and "weatherCache w k = Some entry"
    and "data entry = TemperatureValue r"
  shows "connectionStatus r = online"
  using reachable_allOnline[OF assms(1)] assms(2,3) unfolding allOnline_def by blast

theorem cached_records_are_online_witness:
  "reachable defaultEnv
     (snd (getCurrentTemperature defaultEnv (respond 20) ''Lisbon'' celsius (emptyWorld 0)))
   \<and> weatherCache
       (snd (getCurrentTemperature defaultEnv (respond 20) ''Lisbon'' celsius (emptyWorld 0)))
       (cacheKey ''Lisbon'' celsius) =
     Some \<lparr>data = TemperatureValue lisbonRecord, expiresAt = 900000\<rparr>
   \<and> data \<lparr>data = TemperatureValue lisbonRecord, expiresAt = 900000\<rparr> =
       TemperatureValue lisbonRecord
   \<and> connectionStatus lisbonRecord = online"
proof -
  have z: "tzOffset defaultEnv = 0" by (simp add: defaultEnv_def)
  have h1: "reachable defaultEnv
     (snd (getCurrentTemperature defaultEnv (respond 20) ''Lisbon'' celsius (emptyWorld 0)))"
    by (rule reachable_getCurrentTemperature[OF reachable.start]) simp
  have h2: "weatherCache
       (snd (getCurrentTemperature defaultEnv (respond 20) ''Lisbon'' celsius (emptyWorld 0)))
       (cacheKey ''Lisbon'' celsius) =
     Some \<lparr>data = TemperatureValue lisbonRecord, expiresAt = 900000\<rparr>"
    unfolding first_fetch[OF z] by (simp add: defaultEnv_def)
  have h3: "data \<lparr>data = TemperatureValue lisbonRecord, expiresAt = 900000\<rparr> =
       TemperatureValue lisbonRecord"
    by simp
  note t = cached_records_are_online[OF h1 h2 h3]
  from h1 h2 h3 t show ?thesis by (intro conjI)
qed

section \<open>The rate limit\<close>

lemma refreshTemperature_respond_guard:
  "weatherCache (snd (refreshTemperature e (respond c) loc u w)) (refreshKey loc) =
     Some \<lparr>data = NumberValue (clock w), expiresAt = clock w + 30000\<rparr>"
  unfolding refreshTemperature_def Let_def
  by (subst getCurrentTemperature_frame) (simp_all add: MemoryCache_set_def)

lemma checkRefreshEligibility_number:
  assumes "weatherCache w (refreshKey loc) = Some \<lparr>data = NumberValue t, expiresAt = x\<rparr>"
  shows "fst (checkRefreshEligibility loc w) = (clock w > x \<or> t = 0 \<or> clock w - t \<ge> 30000)"
  using assms by (simp add: checkRefreshEligibility_def MemoryCache_get_def)

lemma checkRefreshEligibility_absent:
  assumes "weatherCache w (refreshKey loc) = None"
  shows "fst (checkRefreshEligibility loc w) = True"
  using assms by (simp add: checkRefreshEligibility_def MemoryCache_get_def)

lemma checkRefreshEligibility_after_refresh:
  "fst (checkRefreshEligibility loc
          ((snd (refreshTemperature e (respond c) loc u (emptyWorld t0)))\<lparr>clock := t1\<rparr>))
   = (t0 = 0 \<or> t1 - t0 \<ge> 30000)"
proof -
  have g: "weatherCache
             ((snd (refreshTemperature e (respond c) loc u (emptyWorld t0)))\<lparr>clock := t1\<rparr>)
             (refreshKey loc) =
           Some \<lparr>data = NumberValue t0, expiresAt = t0 + 30000\<rparr>"
    using refreshTemperature_respond_guard[of e c loc u "emptyWorld t0"]
    by (simp add: emptyWorld_def)
  show ?thesis
    unfolding checkRefreshEligibility_number[OF g] by auto
qed

text \<open>
  Claim C5 fails on the code where the guard holds the timestamp 0.  After a refresh at
  clock reading \<open>t0\<close>, a check at clock reading \<open>t1\<close> answers true exactly when
  \<open>t1 - t0 \<ge> 30000\<close> or \<open>t0 = 0\<close>: the test \<^verbatim>\<open>!lastRefresh\<close> takes the stored number
  0 for a missing entry.  So a refresh at clock reading 0 is followed by an eligible
  check 10 ms later, where the same pair of calls started at 1000 is refused at 1010 and
  allowed at 31000.
\<close>

theorem checkRefreshEligibility_zero_timestamp:
  "fst (checkRefreshEligibility ''Lisbon''
          ((snd (refreshTemperature defaultEnv (respond 20) ''Lisbon'' celsius (emptyWorld 0)))
             \<lparr>clock := 10\<rparr>)) = True
   \<and> fst (checkRefreshEligibility ''Lisbon''
          ((snd (refreshTemperature defaultEnv (respond 20) ''Lisbon'' celsius (emptyWorld 1000)))
             \<lparr>clock := 1010\<rparr>)) = False
   \<and> fst (checkRefreshEligibility ''Lisbon''
          ((snd (refreshTemperature defaultEnv (respond 20) ''Lisbon'' celsius (emptyWorld 1000)))
             \<lparr>clock := 31000\<rparr>)) = True
   \<and> fst (checkRefreshEligibility loc
          ((snd (refreshTemperature e (respond c) loc u (emptyWorld t0)))\<lparr>clock := t1\<rparr>))
       = (t0 = 0 \<or> t1 - t0 \<ge> 30000)"
  by (simp add: checkRefreshEligibility_after_refresh)

section \<open>Staleness\<close>

lemma formatTimestamp_next_midnight:
  "tzOffset e = 0 \<Longrightarrow> formatTimestamp e 86400000 = ''Updated at 00:00''"
  by (simp add: formatTimestamp_def getHours_def getMinutes_def natToString.simps padStart_def
        digitChar_def)

lemma next_day_fetch:
  assumes "tzOffset e = 0"
  shows "getCurrentTemperature e (respond 20) ''Lisbon'' celsius (emptyWorld 86400000) =
           (Inr lisbonRecord,
            \<lparr>clock = 86400000,
             weatherCache = [cacheKey ''Lisbon'' celsius \<mapsto>
               \<lparr>data = TemperatureValue lisbonRecord,
                expiresAt = 86400000 + cache_ttl e * 1000\<rparr>]\<rparr>)"
proof -
  have p: "\<not> (temp_c (reading 20) < - 90 \<or> temp_c (reading 20) > 60)" by simp
  have r: "\<lparr>temperature = toFixed 1 (if celsius = fahrenheit
                                        then celsiusToFahrenheit (temp_c (reading 20))
                                        else temp_c (reading 20)),
             unit = unitSymbol celsius, location = name (reading 20),
             lastUpdate = formatTimestamp e (clock (emptyWorld 86400000)),
             connectionStatus = online\<rparr> = lisbonRecord"
    by (simp add: lisbonRecord_def toFixed_def formatTimestamp_next_midnight[OF assms]
          reading_def emptyWorld_def)
  show ?thesis
    unfolding getCurrentTemperature_respond_emptyWorld tryBlock_plausible[OF p] r
    by (simp add: emptyWorld_def MemoryCache_set_def)
qed

lemma hit_in_single_entry_cache:
  assumes "now \<le> x"
  shows "getCurrentTemperature e http ''Lisbon'' celsius
           \<lparr>clock = now,
            weatherCache = [cacheKey ''Lisbon'' celsius \<mapsto>
              \<lparr>data = TemperatureValue r, expiresAt = x\<rparr>]\<rparr>
         = (Inr (r\<lparr>connectionStatus := if isStale e now r then stale else online\<rparr>),
            \<lparr>clock = now,
             weatherCache = [cacheKey ''Lisbon'' celsius \<mapsto>
               \<lparr>data = TemperatureValue r, expiresAt = x\<rparr>]\<rparr>)"
proof -
  have h1: "''Lisbon'' \<noteq> []" by simp
  have h2: "length ''Lisbon'' \<le> 50" by simp
  let ?w = "\<lparr>clock = now,
            weatherCache = [cacheKey ''Lisbon'' celsius \<mapsto>
              \<lparr>data = TemperatureValue r, expiresAt = x\<rparr>]\<rparr>"
  have h3: "fst (MemoryCache_get (clock ?w) (cacheKey ''Lisbon'' celsius) (weatherCache ?w))
            = Some (TemperatureValue r)"
    using assms by (simp add: MemoryCache_get_def)
  show ?thesis
    using cacheLookup_hit[OF h1 h2 h3, of e] by (simp add: getCurrentTemperature_def)
qed

text \<open>
  Claim C1 fails on the code.  The age is computed from \<^verbatim>\<open>lastUpdate\<close>, the display
  string \<^verbatim>\<open>Updated at HH:MM\<close>.  With a TTL of 7200 s and a date parser that yields
  \<^verbatim>\<open>NaN\<close> on that string, a record fetched at clock reading 0 and read 3600001 ms
  later is a cache hit labelled online, not stale.  And whatever the parser yields, with
  a TTL of one day the record fetched at clock reading 0 and the record fetched at
  86400000 carry the same string, so a read at 86400000 gives both the same label,
  although one is a day old and the other has just been fetched.
\<close>

theorem staleness_from_display_string:
  "fst (getCurrentTemperature
          \<lparr>cache_ttl = 7200, dateParse = p(''Updated at 00:00'' := None), tzOffset = 0\<rparr>
          http ''Lisbon'' celsius
          ((snd (getCurrentTemperature
                   \<lparr>cache_ttl = 7200, dateParse = p(''Updated at 00:00'' := None), tzOffset = 0\<rparr>
                   (respond 20) ''Lisbon'' celsius (emptyWorld 0)))\<lparr>clock := 3600001\<rparr>))
     = Inr \<lparr>temperature = 20, unit = unitSymbol celsius, location = ''Lisbon'',
            lastUpdate = ''Updated at 00:00'', connectionStatus = online\<rparr>
   \<and> (\<exists>s. fst (getCurrentTemperature \<lparr>cache_ttl = 86400, dateParse = p, tzOffset = 0\<rparr>
                 http ''Lisbon'' celsius
                 ((snd (getCurrentTemperature
                          \<lparr>cache_ttl = 86400, dateParse = p, tzOffset = 0\<rparr>
                          (respond 20) ''Lisbon'' celsius (emptyWorld 0)))
                    \<lparr>clock := 86400000\<rparr>))
              = Inr (lisbonRecord\<lparr>connectionStatus := s\<rparr>)
          \<and> fst (getCurrentTemperature \<lparr>cache_ttl = 86400, dateParse = p, tzOffset = 0\<rparr>
                 http ''Lisbon'' celsius
                 (snd (getCurrentTemperature
                          \<lparr>cache_ttl = 86400, dateParse = p, tzOffset = 0\<rparr>
                          (respond 20) ''Lisbon'' celsius (emptyWorld 86400000))))
              = Inr (lisbonRecord\<lparr>connectionStatus := s\<rparr>))"
proof -
  let ?eA = "\<lparr>cache_ttl = 7200, dateParse = p(''Updated at 00:00'' := None), tzOffset = 0\<rparr>"
  let ?eB = "\<lparr>cache_ttl = 86400, dateParse = p, tzOffset = 0\<rparr>"
  have n: "\<not> isStale ?eA 3600001 lisbonRecord"
    by (simp add: isStale_def cacheAge_def lisbonRecord_def)
  have a: "fst (getCurrentTemperature ?eA http ''Lisbon'' celsius
          ((snd (getCurrentTemperature ?eA (respond 20) ''Lisbon'' celsius (emptyWorld 0)))
             \<lparr>clock := 3600001\<rparr>))
     = Inr \<lparr>temperature = 20, unit = unitSymbol celsius, location = ''Lisbon'',
            lastUpdate = ''Updated at 00:00'', connectionStatus = online\<rparr>"
    by (simp add: first_fetch hit_in_single_entry_cache n) (simp add: lisbonRecord_def)
  have b1: "fst (getCurrentTemperature ?eB http ''Lisbon'' celsius
                 ((snd (getCurrentTemperature ?eB (respond 20) ''Lisbon'' celsius (emptyWorld 0)))
                    \<lparr>clock := 86400000\<rparr>))
              = Inr (lisbonRecord\<lparr>connectionStatus :=
                       if isStale ?eB 86400000 lisbonRecord then stale else online\<rparr>)"
    by (simp add: first_fetch hit_in_single_entry_cache)
  have b2: "fst (getCurrentTemperature ?eB http ''Lisbon'' celsius
                 (snd (getCurrentTemperature ?eB (respond 20) ''Lisbon'' celsius
                         (emptyWorld 86400000))))
              = Inr (lisbonRecord\<lparr>connectionStatus :=
                       if isStale ?eB 86400000 lisbonRecord then stale else online\<rparr>)"
    by (simp add: next_day_fetch hit_in_single_entry_cache)
  from a b1 b2 show ?thesis by blast
qed

end
